theory Spec2Isabelle
  imports Complex_Main
begin

section \<open>Numbers, failures and results\<close>

text \<open>
  The program is numeric Python over floats (Python floats and numpy float64). The
  embedding reads every float as a real number: rounding, overflow and underflow are not
  modelled. Integers (the two range arguments, the range elements) are \<open>int\<close>.

  What a run can do besides returning is a value of \<open>failure\<close>:
  \<^item> \<open>ZeroDivisionError\<close>, \<open>ValueError\<close>, \<open>TypeError\<close>: the Python exception of
    that name is raised;
  \<^item> \<open>NonFinite\<close>: a numpy operation produced NaN or an infinity (numpy warns and goes
    on). Such a value is not a real number; the model stops the run there and says
    nothing about how Python continues with it.
  A result is \<open>failure + 'a\<close>, with \<open>Inl\<close> the failure.
\<close>

datatype failure = ZeroDivisionError | ValueError | TypeError | NonFinite

definition bind_res :: "failure + 'a \<Rightarrow> ('a \<Rightarrow> failure + 'b) \<Rightarrow> failure + 'b" where
  "bind_res m f = (case m of Inl e \<Rightarrow> Inl e | Inr v \<Rightarrow> f v)"

text \<open>
  \<open>float('inf')\<close> is the one infinity the source writes down itself
  (\<open>calculate_pir_dij\<close>); a PIR value is a real or that infinity.
\<close>

datatype pir = Finite real | PosInf

fun pir_le :: "pir \<Rightarrow> pir \<Rightarrow> bool" where
  "pir_le (Finite a) (Finite b) = (a \<le> b)"
| "pir_le _ PosInf = True"
| "pir_le PosInf (Finite b) = False"

text \<open>
  Python's \<open>x ** y\<close> on floats. A zero base with a negative exponent divides by zero;
  a negative base with an exponent that is not a whole number has no real value (Python
  returns a complex number, numpy returns NaN).
\<close>

datatype pow_result = PowReal real | PowZeroDiv | PowNegFrac

definition float_pow :: "real \<Rightarrow> real \<Rightarrow> pow_result" where
  "float_pow x y =
     (if 0 < x then PowReal (x powr y)
      else if x = 0 then
        (if y = 0 then PowReal 1 else if 0 < y then PowReal 0 else PowZeroDiv)
      else if y = of_int \<lfloor>y\<rfloor> then
        PowReal ((if even \<lfloor>y\<rfloor> then 1 else - 1) * (\<bar>x\<bar> powr y))
      else PowNegFrac)"

text \<open>A Python number that is either a float or a complex number (value not tracked).\<close>

datatype pynum = RealVal real | ComplexVal

text \<open>\<open>int(x)\<close> of a float truncates toward zero.\<close>

definition py_int :: "real \<Rightarrow> int" where
  "py_int x = (if 0 \<le> x then \<lfloor>x\<rfloor> else \<lceil>x\<rceil>)"

text \<open>
  \<open>range(start, stop, step)\<close>, as a list: the number of elements is computed first
  and element \<open>k\<close> is \<open>start + k * step\<close>; a zero step raises \<open>ValueError\<close>.
\<close>

definition py_range :: "int \<Rightarrow> int \<Rightarrow> int \<Rightarrow> failure + int list" where
  "py_range start stop step =
     (if step = 0 then Inl ValueError
      else if 0 < step then
        Inr (map (\<lambda>k. start + int k * step) [0..<nat ((stop - start + step - 1) div step)])
      else
        Inr (map (\<lambda>k. start + int k * step) [0..<nat ((start - stop - step - 1) div (- step))]))"

text \<open>\<open>np.arange(lo, hi, 1)\<close> for integers \<open>lo\<close>, \<open>hi\<close>.\<close>

definition arange :: "int \<Rightarrow> int \<Rightarrow> real list" where
  "arange lo hi = map real_of_int [lo..hi - 1]"

definition log10 :: "real \<Rightarrow> real" where
  "log10 x = log 10 x"

section \<open>calculations.py\<close>

text \<open>
  \<open>calculate_d_int\<close> works on Python floats. The power \<open>d_ij ** alpha\<close> and the
  division by \<open>gamma * d_ij ** alpha\<close>, the division by \<open>denominator\<close>, \<open>1 / alpha\<close>
  and the outer power are evaluated in this order. The driver passes positive
  \<open>P_t\<close>, \<open>K_0\<close>, \<open>gamma\<close> and \<open>N_0\<close> (powers of ten); for these a complex
  \<open>d_ij ** alpha\<close> keeps every later value complex (and non-zero), so the result is
  \<open>ComplexVal\<close>.
\<close>

definition calculate_d_int :: "real \<Rightarrow> real \<Rightarrow> real \<Rightarrow> real \<Rightarrow> real \<Rightarrow> real \<Rightarrow> failure + pynum" where
  "calculate_d_int P_t K_0 gamma d_ij alpha N_0 =
     (let numerator = P_t * K_0 in
      case float_pow d_ij alpha of
        PowZeroDiv \<Rightarrow> Inl ZeroDivisionError
      | PowNegFrac \<Rightarrow> Inr ComplexVal
      | PowReal dp \<Rightarrow>
          if gamma * dp = 0 then Inl ZeroDivisionError
          else
            let denominator = (P_t * K_0) / (gamma * dp) - N_0 in
            if denominator = 0 then Inl ZeroDivisionError
            else if alpha = 0 then Inl ZeroDivisionError
            else
              (case float_pow (numerator / denominator) (1 / alpha) of
                 PowZeroDiv \<Rightarrow> Inl ZeroDivisionError
               | PowNegFrac \<Rightarrow> Inr ComplexVal
               | PowReal d_int \<Rightarrow> Inr (RealVal d_int)))"

text \<open>
  In \<open>calculate_RU\<close> the exponent \<open>spsr\<close> is a numpy float64, so the power is numpy's:
  no exception, NaN or infinity instead.
\<close>

definition calculate_RU :: "real \<Rightarrow> real \<Rightarrow> real \<Rightarrow> failure + real" where
  "calculate_RU R spsr op =
     (case float_pow (1 - op) spsr of
        PowReal w \<Rightarrow> Inr (R * (1 - w))
      | PowZeroDiv \<Rightarrow> Inl NonFinite
      | PowNegFrac \<Rightarrow> Inl NonFinite)"

text \<open>
  \<open>calculate_u_dik\<close> divides numpy values: by \<open>R\<close> and by \<open>spsr\<close>; a zero divisor
  gives NaN or an infinity.
\<close>

definition calculate_u_dik :: "real \<Rightarrow> real \<Rightarrow> real \<Rightarrow> real \<Rightarrow> failure + real" where
  "calculate_u_dik R RU common_neighbors_count spsr =
     (if R = 0 \<or> spsr = 0 then Inl NonFinite
      else Inr ((RU ^ 2 / R) * (1 - common_neighbors_count / spsr)
                + RU * (common_neighbors_count / spsr)))"

definition calculate_o_dik :: "real \<Rightarrow> real \<Rightarrow> real \<Rightarrow> real" where
  "calculate_o_dik R RU u_dik = R - 2 * RU + u_dik"

text \<open>\<open>rc1\<close> and \<open>rc2\<close> are Python numbers: \<open>2 / (rc1 + rc2)\<close> raises on zero.\<close>

definition calculate_mu :: "real \<Rightarrow> real \<Rightarrow> real \<Rightarrow> failure + real" where
  "calculate_mu rc1 rc2 psr_value =
     (if rc1 + rc2 = 0 then Inl ZeroDivisionError
      else Inr (1 - (1 - (2 / (rc1 + rc2))) * psr_value))"

text \<open>
  The driver calls \<open>calculate_p_dik\<close> with \<open>R_f = R - RU\<close>, a numpy float64: a zero
  \<open>R_f\<close> gives an infinity, not an exception.
\<close>

definition calculate_p_dik :: "real \<Rightarrow> real \<Rightarrow> real \<Rightarrow> real \<Rightarrow> failure + real" where
  "calculate_p_dik mu_dik o_dik channels R_f =
     (if R_f = 0 then Inl NonFinite
      else Inr (mu_dik * o_dik * (channels / R_f) ^ 2))"

definition calculate_ps_dik :: "real \<Rightarrow> real \<Rightarrow> real" where
  "calculate_ps_dik p_dik p_res_ik = (1 - p_dik) + p_dik * (1 - p_res_ik)"

definition calculate_prr_dij :: "real \<Rightarrow> real" where
  "calculate_prr_dij p_o_dij = 1 - p_o_dij"

definition calculate_pir_dij :: "real \<Rightarrow> real \<Rightarrow> pir" where
  "calculate_pir_dij p_o_dij RRI =
     (if p_o_dij \<ge> 1 then PosInf else Finite (RRI / (1 - p_o_dij)))"

text \<open>
  \<open>PathLoss\<close> is only called by \<open>PSR\<close>, with \<open>d = |x| + 1 \<ge> 1\<close>, where the
  logarithm is defined.
\<close>

definition PathLoss :: "real \<Rightarrow> real \<Rightarrow> real \<Rightarrow> real \<times> real" where
  "PathLoss d K0_dB gamma = (- K0_dB + 10 * gamma * log10 d, 3)"

text \<open>
  \<open>erf\<close> is \<open>scipy.special.erf\<close>, a library function and not code of this
  repository: the embedding takes it as the parameter \<open>erf\<close>. Theorems that need
  anything of it assume that its values lie between \<open>-1\<close> and \<open>1\<close>, as those of the
  error function do.
\<close>

definition PSR :: "(real \<Rightarrow> real) \<Rightarrow> real \<Rightarrow> real \<Rightarrow> real \<Rightarrow> real \<Rightarrow> real \<Rightarrow> real" where
  "PSR erf d Pt_dBm P_sen_dBm K0_dB gamma =
     (let (PL, std_dev) = PathLoss (\<bar>d\<bar> + 1) K0_dB gamma
      in 0.5 * (1 + erf ((Pt_dBm - PL - P_sen_dBm) / (std_dev * sqrt 2))))"

definition SPSR :: "(real \<Rightarrow> real) \<Rightarrow> real \<Rightarrow> real \<Rightarrow> real \<Rightarrow> real \<Rightarrow> real \<Rightarrow> real" where
  "SPSR erf beta P_t_dB P_s_dB K_0_dB alpha =
     (let distances = arange (- 2000) 2000;
          psr_values = map (\<lambda>d. PSR erf d P_t_dB P_s_dB K_0_dB alpha) distances;
          spsr_sum = sum_list psr_values
      in beta * spsr_sum)"

definition rho :: "real \<Rightarrow> real \<Rightarrow> real" where
  "rho d_i_k sigma = exp (- d_i_k)"

definition common_neighbors :: "(real \<Rightarrow> real) \<Rightarrow> real \<Rightarrow> real \<Rightarrow> real \<Rightarrow> real \<Rightarrow> real \<Rightarrow> real \<Rightarrow> real" where
  "common_neighbors erf beta P_t_dB P_s_dB K_0_dB alpha d_i_k =
     (let distances = arange (- 2000) 2000;
          psr_i = map (\<lambda>d. PSR erf d P_t_dB P_s_dB K_0_dB alpha) distances;
          psr_k = map (\<lambda>d. PSR erf \<bar>d - d_i_k\<bar> P_t_dB P_s_dB K_0_dB alpha) distances;
          correlation_factor = rho d_i_k 3;
          common_psr = map (\<lambda>(a, b). correlation_factor * min a b
                                      + (1 - correlation_factor) * a * b) (zip psr_i psr_k);
          common_neighbors_sum = sum_list common_psr
      in beta * common_neighbors_sum)"

section \<open>analytical_prr_pir.py\<close>

text \<open>
  A stand-in with the range of the error function, for closed instances of theorems
  that hold for every \<open>erf\<close> with that range.
\<close>

definition soft_sign :: "real \<Rightarrow> real" where
  "soft_sign x = x / (1 + \<bar>x\<bar>)"


definition erf_bounded :: "(real \<Rightarrow> real) \<Rightarrow> bool" where
  "erf_bounded erf = (\<forall>x. - 1 \<le> erf x \<and> erf x \<le> 1)"

definition erf_strict :: "(real \<Rightarrow> real) \<Rightarrow> bool" where
  "erf_strict erf = (\<forall>x. - 1 < erf x \<and> erf x < 1)"

text \<open>A loop body that can fail, run over a list in order; the first failure ends it.\<close>

fun map_res :: "('a \<Rightarrow> failure + 'b) \<Rightarrow> 'a list \<Rightarrow> failure + 'b list" where
  "map_res f [] = Inr []"
| "map_res f (x # xs) =
     bind_res (f x) (\<lambda>y. bind_res (map_res f xs) (\<lambda>ys. Inr (y # ys)))"

text \<open>\<open>distances = list(range(0, max_distance + step_distance, step_distance))\<close>\<close>

definition distances :: "int \<Rightarrow> int \<Rightarrow> failure + int list" where
  "distances max_distance step_distance =
     py_range 0 (max_distance + step_distance) step_distance"

text \<open>
  The threshold-adjustment loop \<open>while RU > (1 - s) * R\<close>. Its state is
  \<open>(P_s_dB, spsr, RU)\<close>; the source has no bound on the number of iterations, so the
  loop is a partial function and \<open>None\<close> is a run that never leaves it.
\<close>

partial_function (option) adjust_threshold ::
  "(real \<Rightarrow> real) \<Rightarrow> real \<Rightarrow> real \<Rightarrow> real \<Rightarrow> real \<Rightarrow> real \<Rightarrow> real \<Rightarrow> real
     \<Rightarrow> real \<times> real \<times> real \<Rightarrow> (failure + real \<times> real \<times> real) option" where
  "adjust_threshold erf beta P_t_dB K_0_dB alpha R channels s st =
     (case st of (P_s_dB, spsr, RU) \<Rightarrow>
        if RU > (1 - s) * R then
          (let P_s_dB' = P_s_dB + 3;
               spsr' = SPSR erf beta P_t_dB P_s_dB' K_0_dB alpha
           in case calculate_RU R spsr' (channels / R) of
                Inl e \<Rightarrow> Some (Inl e)
              | Inr RU' \<Rightarrow>
                  adjust_threshold erf beta P_t_dB K_0_dB alpha R channels s (P_s_dB', spsr', RU'))
        else Some (Inr (P_s_dB, spsr, RU)))"




text \<open>
  \<open>d_ik_range = range(int(d_min), int(d_max), int(1 / beta))\<close>: \<open>int\<close> of a complex
  \<open>d_min\<close> raises \<open>TypeError\<close>, \<open>1 / beta\<close> raises on zero, and \<open>range\<close> raises on
  a zero step.
\<close>

definition d_ik_range :: "int \<Rightarrow> pynum \<Rightarrow> real \<Rightarrow> failure + int list" where
  "d_ik_range d_ij d_int beta =
     (case d_int of
        ComplexVal \<Rightarrow> Inl TypeError
      | RealVal r \<Rightarrow>
          let d_min = real_of_int d_ij - r; d_max = real_of_int d_ij + r in
          if beta = 0 then Inl ZeroDivisionError
          else py_range (py_int d_min) (py_int d_max) (py_int (1 / beta)))"

text \<open>The body of the inner loop: the pair \<open>(ps_dik, ps_dik_nr)\<close> of one neighbor sample.\<close>

definition inner_sample ::
  "(real \<Rightarrow> real) \<Rightarrow> real \<Rightarrow> real \<Rightarrow> real \<Rightarrow> real \<Rightarrow> real \<Rightarrow> real \<Rightarrow> real \<Rightarrow> real \<Rightarrow> real \<Rightarrow> real
     \<Rightarrow> real \<Rightarrow> int \<Rightarrow> failure + real \<times> real" where
  "inner_sample erf channels beta P_t_dB alpha P_s_dB K_0_dB rc1 rc2 R spsr RU dik =
     (let d_ik = \<bar>real_of_int dik\<bar>;
          psr_value = PSR erf d_ik P_t_dB P_s_dB K_0_dB alpha;
          common_neighbors_count = common_neighbors erf beta P_t_dB P_s_dB K_0_dB alpha d_ik
      in bind_res (calculate_u_dik R RU common_neighbors_count spsr) (\<lambda>u_dik.
         let o_dik = calculate_o_dik R RU u_dik in
         bind_res (calculate_mu rc1 rc2 psr_value) (\<lambda>mu_dik.
         bind_res (calculate_p_dik mu_dik o_dik channels (R - RU)) (\<lambda>p_dik.
         let ps_dik = calculate_ps_dik p_dik (RU / R);
             ps_dik_nr = 1 - p_dik
         in Inr (ps_dik, ps_dik_nr)))))"

text \<open>
  The four values appended for one outer distance, from the samples of the inner loop;
  \<open>np.prod\<close> of an empty list is 1.
\<close>

definition aggregate :: "(real \<times> real) list \<Rightarrow> real \<Rightarrow> real \<times> real \<times> pir \<times> pir" where
  "aggregate samples rri =
     (let ps_values = map fst samples;
          ps_dik_nr_values = map snd samples
      in (calculate_prr_dij (1 - prod_list ps_values),
          calculate_prr_dij (1 - prod_list ps_dik_nr_values),
          calculate_pir_dij (1 - prod_list ps_values) rri,
          calculate_pir_dij (1 - prod_list ps_dik_nr_values) rri))"

text \<open>The body of the outer loop, for one distance \<open>d_ij\<close>.\<close>

definition sweep_point ::
  "(real \<Rightarrow> real) \<Rightarrow> real \<Rightarrow> real \<Rightarrow> real \<Rightarrow> real \<Rightarrow> real \<Rightarrow> real \<Rightarrow> real \<Rightarrow> real \<Rightarrow> real \<Rightarrow> real
     \<Rightarrow> real \<Rightarrow> real \<Rightarrow> real \<Rightarrow> real \<Rightarrow> real \<Rightarrow> real \<Rightarrow> int \<Rightarrow> failure + real \<times> real \<times> pir \<times> pir" where
  "sweep_point erf channels beta P_t_dB alpha P_s_dB K_0_dB rc1 rc2 rri
       P_t K_0 sinr_threshold N_0 R spsr RU d_ij =
     bind_res (calculate_d_int P_t K_0 sinr_threshold (real_of_int (d_ij + 1)) alpha N_0) (\<lambda>d_int.
     bind_res (d_ik_range d_ij d_int beta) (\<lambda>d_ik_range.
     bind_res (map_res (inner_sample erf channels beta P_t_dB alpha P_s_dB K_0_dB rc1 rc2 R spsr RU)
                 d_ik_range) (\<lambda>samples.
     Inr (aggregate samples rri))))"

text \<open>
  The entry point. \<open>math.log10\<close> raises \<open>ValueError\<close> unless \<open>fc > 0\<close>; the
  divisions \<open>maxchannel / channels\<close>, \<open>rri / slot\<close> and \<open>channels / R\<close> are on Python
  numbers and raise on zero. The result is \<open>None\<close> when the threshold loop never ends,
  otherwise the failure or the four lists
  \<open>(prr_spc6G, prr_nrv2x, pir_spc6G, pir_nrv2x)\<close>.
\<close>

definition calculate_analytical_results ::
  "(real \<Rightarrow> real) \<Rightarrow> real \<Rightarrow> real \<Rightarrow> real \<Rightarrow> real \<Rightarrow> real \<Rightarrow> real \<Rightarrow> real \<Rightarrow> real \<Rightarrow> real \<Rightarrow> real
     \<Rightarrow> real \<Rightarrow> real \<Rightarrow> real \<Rightarrow> real \<Rightarrow> real \<Rightarrow> int \<Rightarrow> int
     \<Rightarrow> (failure + real list \<times> real list \<times> pir list \<times> pir list) option" where
  "calculate_analytical_results erf channels sinr_threshold_dB beta P_t_dB fc alpha P_s_dB N_0_dB
       maxchannel slot s rc1 rc2 rri p_res_ik max_distance step_distance =
     (let P_s = 10 powr (P_s_dB / 10);
          P_t = 10 powr (P_t_dB / 10)
      in if fc \<le> 0 then Some (Inl ValueError)
      else
        let K_0_dB = - (32.4 + 20 * log10 fc);
            K_0 = 10 powr (K_0_dB / 10);
            N_0 = 10 powr (N_0_dB / 10);
            sinr_threshold = 10 powr (sinr_threshold_dB / 10)
        in case distances max_distance step_distance of
             Inl e \<Rightarrow> Some (Inl e)
           | Inr ds \<Rightarrow>
               if channels = 0 then Some (Inl ZeroDivisionError)
               else if slot = 0 then Some (Inl ZeroDivisionError)
               else
                 let R = maxchannel * (rri / slot);
                     spsr = SPSR erf beta P_t_dB P_s_dB K_0_dB alpha
                 in if R = 0 then Some (Inl ZeroDivisionError)
                 else
                   (case calculate_RU R spsr (channels / R) of
                      Inl e \<Rightarrow> Some (Inl e)
                    | Inr RU \<Rightarrow>
                        (case adjust_threshold erf beta P_t_dB K_0_dB alpha R channels s
                                (P_s_dB, spsr, RU) of
                           None \<Rightarrow> None
                         | Some (Inl e) \<Rightarrow> Some (Inl e)
                         | Some (Inr (P_s_dB', spsr', RU')) \<Rightarrow>
                             Some (bind_res
                               (map_res (sweep_point erf channels beta P_t_dB alpha P_s_dB' K_0_dB
                                           rc1 rc2 rri P_t K_0 sinr_threshold N_0 R spsr' RU') ds)
                               (\<lambda>rows. Inr (map (\<lambda>(a, b, c, d). a) rows,
                                             map (\<lambda>(a, b, c, d). b) rows,
                                             map (\<lambda>(a, b, c, d). c) rows,
                                             map (\<lambda>(a, b, c, d). d) rows))))))"

section \<open>Properties of calculations.py\<close>

text \<open>
  C9. \<open>rho(d_i_k, sigma)\<close> is \<open>exp(-d_i_k)\<close> whatever \<open>sigma\<close> is: its result,
  and with it the correlation factor \<open>rho(d_i_k, 3)\<close> of \<open>common_neighbors\<close>, does not
  depend on the second argument.
\<close>

theorem rho_ignores_sigma:
  "rho d_i_k sigma = exp (- d_i_k) \<and> rho d_i_k sigma = rho d_i_k sigma'
   \<and> rho d_i_k 3 = rho d_i_k sigma"
  by (simp add: rho_def)

text \<open>
  C5. \<open>calculate_pir_dij(p_o_dij, RRI)\<close> is \<open>+inf\<close> exactly when \<open>p_o_dij \<ge> 1\<close>,
  and \<open>RRI / (1 - p_o_dij)\<close> otherwise; \<open>calculate_pir_dij(0, rri)\<close> is \<open>rri\<close>.
\<close>

theorem calculate_pir_dij_cases:
  "(calculate_pir_dij p_o_dij RRI = PosInf \<longleftrightarrow> p_o_dij \<ge> 1)
   \<and> (p_o_dij < 1 \<longrightarrow> calculate_pir_dij p_o_dij RRI = Finite (RRI / (1 - p_o_dij)))
   \<and> calculate_pir_dij 0 RRI = Finite RRI"
  by (simp add: calculate_pir_dij_def)

theorem calculate_pir_dij_cases_witness:
  "calculate_pir_dij (1 / 2) (1 / 10) = Finite (1 / 5)
   \<and> calculate_pir_dij 1 (1 / 10) = PosInf
   \<and> calculate_pir_dij 0 (1 / 10) = Finite (1 / 10)"
  using calculate_pir_dij_cases [of "1 / 2" "1 / 10"] calculate_pir_dij_cases [of 1 "1 / 10"]
  by simp


text \<open>
  C7, as stated, for every \<open>RRI\<close>: it fails for a negative \<open>RRI\<close>, where the quotient
  decreases as the outage grows (\<open>-1\<close> at outage 0, \<open>-2\<close> at outage 1/2).
\<close>

theorem pir_negative_rri_counterexample:
  "(0::real) \<le> 1 / 2 \<and> (1 / 2 :: real) < 1
   \<and> \<not> pir_le (calculate_pir_dij 0 (- 1)) (calculate_pir_dij (1 / 2) (- 1))"
  by (simp add: calculate_pir_dij_def)


text \<open>
  C7, amended. For a fixed \<open>RRI \<ge> 0\<close>, \<open>calculate_pir_dij\<close> is monotonically
  non-decreasing in the outage probability: \<open>o1 \<le> o2 < 1\<close> gives
  \<open>calculate_pir_dij(o1, RRI) \<le> calculate_pir_dij(o2, RRI)\<close>.
\<close>

theorem pir_monotone:
  assumes "0 \<le> RRI" and "o1 \<le> o2" and "o2 < 1"
  shows "pir_le (calculate_pir_dij o1 RRI) (calculate_pir_dij o2 RRI)"
proof -
  have "0 < 1 - o2" and "1 - o2 \<le> 1 - o1"
    using assms by simp_all
  then have "RRI / (1 - o1) \<le> RRI / (1 - o2)"
    using assms(1) by (intro divide_left_mono) (auto intro: mult_pos_pos)
  then show ?thesis
    using assms by (simp add: calculate_pir_dij_def)
qed

theorem pir_monotone_witness:
  "(0::real) \<le> 1 / 10 \<and> (0::real) \<le> 1 / 2 \<and> (1 / 2 :: real) < 1
   \<and> pir_le (calculate_pir_dij 0 (1 / 10)) (calculate_pir_dij (1 / 2) (1 / 10))"
  using pir_monotone [of "1 / 10" 0 "1 / 2"] by simp


subsection \<open>The sensing sums\<close>

lemma PSR_erf: "\<exists>z. PSR erf d Pt Psen K0 g = (1 + erf z) / 2"
  by (auto simp: PSR_def PathLoss_def)

lemma PSR_range:
  assumes "erf_bounded erf"
  shows "0 \<le> PSR erf d Pt Psen K0 g" and "PSR erf d Pt Psen K0 g \<le> 1"
proof -
  obtain z where eq: "PSR erf d Pt Psen K0 g = (1 + erf z) / 2"
    using PSR_erf by blast
  have "- 1 \<le> erf z" and "erf z \<le> 1"
    using assms by (simp_all add: erf_bounded_def)
  then show "0 \<le> PSR erf d Pt Psen K0 g" and "PSR erf d Pt Psen K0 g \<le> 1"
    unfolding eq by simp_all
qed

lemma sum_list_map_nonneg:
  "(\<And>x. x \<in> set xs \<Longrightarrow> 0 \<le> f x) \<Longrightarrow> (0::real) \<le> sum_list (map f xs)"
  by (induction xs) auto

lemma common_term_nonneg:
  fixes a b c :: real
  assumes "0 \<le> c" "0 \<le> a" "a \<le> 1" "0 \<le> b" "b \<le> 1"
  shows "0 \<le> c * min a b + (1 - c) * a * b"
proof -
  have "a * b \<le> min a b"
    using assms by (simp add: min_def mult_left_le mult_right_le_one_le mult_left_le_one_le)
  then have "0 \<le> c * (min a b - a * b)"
    using assms(1) by simp
  moreover have "0 \<le> a * b" using assms by simp
  moreover have "c * min a b + (1 - c) * a * b = c * (min a b - a * b) + a * b"
    by (simp add: algebra_simps)
  ultimately show ?thesis by linarith
qed


lemma common_neighbors_nonneg:
  assumes "erf_bounded erf" "0 \<le> beta"
  shows "0 \<le> common_neighbors erf beta P_t_dB P_s_dB K_0_dB alpha d_i_k"
proof -
  have "0 \<le> sum_list (map (\<lambda>(a, b). rho d_i_k 3 * min a b + (1 - rho d_i_k 3) * a * b)
      (zip (map (\<lambda>d. PSR erf d P_t_dB P_s_dB K_0_dB alpha) (arange (- 2000) 2000))
           (map (\<lambda>d. PSR erf \<bar>d - d_i_k\<bar> P_t_dB P_s_dB K_0_dB alpha) (arange (- 2000) 2000))))"
  proof (rule sum_list_map_nonneg)
    fix x assume "x \<in> set (zip (map (\<lambda>d. PSR erf d P_t_dB P_s_dB K_0_dB alpha) (arange (- 2000) 2000))
           (map (\<lambda>d. PSR erf \<bar>d - d_i_k\<bar> P_t_dB P_s_dB K_0_dB alpha) (arange (- 2000) 2000)))"
    moreover obtain a b where x: "x = (a, b)"
      by (cases x)
    ultimately have a: "a \<in> set (map (\<lambda>d. PSR erf d P_t_dB P_s_dB K_0_dB alpha) (arange (- 2000) 2000))"
      and b: "b \<in> set (map (\<lambda>d. PSR erf \<bar>d - d_i_k\<bar> P_t_dB P_s_dB K_0_dB alpha) (arange (- 2000) 2000))"
      by (blast dest: set_zip_leftD, blast dest: set_zip_rightD)
    have "0 \<le> a" "a \<le> 1" "0 \<le> b" "b \<le> 1"
      using a b PSR_range [OF assms(1)] by auto
    then show "0 \<le> (case x of (a, b) \<Rightarrow> rho d_i_k 3 * min a b + (1 - rho d_i_k 3) * a * b)"
      unfolding x by (simp add: common_term_nonneg rho_def)
  qed
  then show ?thesis
    unfolding common_neighbors_def Let_def using assms(2) by (intro mult_nonneg_nonneg)
qed


lemma soft_sign_strict: "erf_strict soft_sign"
  unfolding erf_strict_def soft_sign_def
  by (auto simp: field_simps abs_if)





section \<open>Properties of the distance sweep\<close>

subsection \<open>Ranges\<close>


lemma py_range_pos_bounds:
  assumes "0 < step" and "py_range start stop step = Inr xs" and "x \<in> set xs"
  shows "start \<le> x \<and> x < stop"
proof -
  let ?n = "(stop - start + step - 1) div step"
  from assms obtain k where k: "k < nat ?n" and x: "x = start + int k * step"
    by (auto simp: py_range_def)
  have "int k + 1 \<le> ?n" using k by linarith
  then have "(int k + 1) * step \<le> ?n * step"
    using assms(1) by (simp add: mult_right_mono)
  also have "?n * step \<le> stop - start + step - 1"
    using assms(1) by (metis div_mult_mod_eq add.commute le_add_same_cancel1 pos_mod_sign mult.commute add_le_same_cancel1 mod_int_pos_iff)
  finally have "int k * step < stop - start"
    by (simp add: algebra_simps)
  moreover have "0 \<le> int k * step" using assms(1) by simp
  ultimately show ?thesis unfolding x by linarith
qed







lemma d_ik_range_example: "d_ik_range 0 (RealVal (65 / 2)) (1 / 20) = Inr [- 32, - 12, 8, 28]"
  by (simp add: d_ik_range_def py_range_def py_int_def upt_conv_Cons)


text \<open>
  The outer distances stay below \<open>max_distance + step_distance\<close>, and do not exceed
  \<open>max_distance\<close> when \<open>step_distance\<close> divides it.
\<close>

lemma distances_below_stop:
  assumes "0 < step_distance" and "distances max_distance step_distance = Inr ds" and "x \<in> set ds"
  shows "0 \<le> x \<and> x < max_distance + step_distance"
  using py_range_pos_bounds [OF assms(1) assms(2) [unfolded distances_def] assms(3)] .

lemma distances_within_max:
  assumes "0 < step_distance" and "step_distance dvd max_distance"
    and "distances max_distance step_distance = Inr ds" and "x \<in> set ds"
  shows "x \<le> max_distance"
proof -
  obtain m where m: "max_distance = step_distance * m"
    using assms(2) by (auto simp: dvd_def)
  obtain k where k: "x = int k * step_distance"
    using assms(1,3,4) by (auto simp: distances_def py_range_def)
  have "x < max_distance + step_distance"
    using distances_below_stop [OF assms(1,3,4)] by simp
  then have "int k * step_distance < (m + 1) * step_distance"
    by (simp add: k m algebra_simps)
  then have "int k < m + 1"
    using assms(1) by (simp add: mult_less_cancel_right)
  then have "int k * step_distance \<le> m * step_distance"
    using assms(1) by (intro mult_right_mono) simp_all
  then show ?thesis
    by (simp add: k m mult.commute)
qed

text \<open>
  C4. The outer sequence is \<open>range(0, max_distance + step_distance, step_distance)\<close>.
  With \<open>max_distance = 10\<close> and \<open>step_distance = 3\<close> its last element is 12, above
  \<open>max_distance\<close>, which the docstring of the entry point calls the maximum distance
  between transmitter and receiver. (A run that returns has one entry per outer distance
  in each of its four lists, see \<open>results_aligned\<close>.)
\<close>

theorem distances_overshoot: "distances 10 3 = Inr [0, 3, 6, 9, 12]"
  by (simp add: distances_def py_range_def upt_conv_Cons)


subsection \<open>Loops over lists\<close>

lemma bind_res_Inr_iff:
  "bind_res m f = Inr y \<longleftrightarrow> (\<exists>v. m = Inr v \<and> f v = Inr y)"
  by (cases m) (simp_all add: bind_res_def)

lemma map_res_Inr_length:
  "map_res f xs = Inr ys \<Longrightarrow> length ys = length xs"
  by (induction xs arbitrary: ys) (auto simp: bind_res_Inr_iff)

lemma map_res_Inr_nth:
  "map_res f xs = Inr ys \<Longrightarrow> i < length xs \<Longrightarrow> f (xs ! i) = Inr (ys ! i)"
proof (induction xs arbitrary: ys i)
  case Nil
  then show ?case by simp
next
  case (Cons x xs)
  then show ?case
    by (cases i) (auto simp: bind_res_Inr_iff)
qed

lemma map_res_Inr_set:
  "map_res f xs = Inr ys \<Longrightarrow> y \<in> set ys \<Longrightarrow> \<exists>x\<in>set xs. f x = Inr y"
  by (induction xs arbitrary: ys) (auto simp: bind_res_Inr_iff)

lemma calculate_ps_dik_eq: "calculate_ps_dik p_dik q = 1 - p_dik * q"
  by (simp add: calculate_ps_dik_def algebra_simps)

lemma inner_sample_form:
  assumes "inner_sample erf channels beta P_t_dB alpha P_s_dB K_0_dB rc1 rc2 R spsr RU dik = Inr (a, b)"
  shows "\<exists>p_dik. a = calculate_ps_dik p_dik (RU / R) \<and> b = 1 - p_dik"
  using assms by (auto simp: inner_sample_def Let_def bind_res_Inr_iff)

lemma inner_samples_form:
  assumes "map_res (inner_sample erf channels beta P_t_dB alpha P_s_dB K_0_dB rc1 rc2 R spsr RU) ds = Inr samples"
  shows "\<exists>ps. samples = map (\<lambda>p_dik. (calculate_ps_dik p_dik (RU / R), 1 - p_dik)) ps"
  using assms
proof (induction ds arbitrary: samples)
  case Nil
  then show ?case by simp
next
  case (Cons d ds)
  then obtain y ys where y: "inner_sample erf channels beta P_t_dB alpha P_s_dB K_0_dB rc1 rc2 R spsr RU d = Inr y"
    and ys: "map_res (inner_sample erf channels beta P_t_dB alpha P_s_dB K_0_dB rc1 rc2 R spsr RU) ds = Inr ys"
    and s: "samples = y # ys"
    by (auto simp: bind_res_Inr_iff)
  obtain p where "y = (calculate_ps_dik p (RU / R), 1 - p)"
    using inner_sample_form [of erf channels beta P_t_dB alpha P_s_dB K_0_dB rc1 rc2 R spsr RU d "fst y" "snd y"] y
    by (cases y) auto
  moreover obtain ps where "ys = map (\<lambda>p_dik. (calculate_ps_dik p_dik (RU / R), 1 - p_dik)) ps"
    using Cons.IH [OF ys] by blast
  ultimately have "samples = map (\<lambda>p_dik. (calculate_ps_dik p_dik (RU / R), 1 - p_dik)) (p # ps)"
    using s by simp
  then show ?case by blast
qed

lemma prod_list_mono_nonneg:
  fixes f g :: "'a \<Rightarrow> real"
  assumes "\<And>x. x \<in> set xs \<Longrightarrow> 0 \<le> g x \<and> g x \<le> f x"
  shows "0 \<le> prod_list (map g xs) \<and> prod_list (map g xs) \<le> prod_list (map f xs)"
  using assms
proof (induction xs)
  case Nil
  then show ?case by simp
next
  case (Cons x xs)
  then have ih: "0 \<le> prod_list (map g xs)" "prod_list (map g xs) \<le> prod_list (map f xs)"
    by simp_all
  have x: "0 \<le> g x" "g x \<le> f x" using Cons.prems by simp_all
  have "g x * prod_list (map g xs) \<le> f x * prod_list (map f xs)"
    using x ih by (intro mult_mono) auto
  then show ?case using x ih by simp
qed

lemma prod_list_unit:
  fixes xs :: "real list"
  assumes "\<And>x. x \<in> set xs \<Longrightarrow> 0 \<le> x \<and> x \<le> 1"
  shows "0 \<le> prod_list xs \<and> prod_list xs \<le> 1"
  using assms
proof (induction xs)
  case Nil
  then show ?case by simp
next
  case (Cons x xs)
  then have "0 \<le> prod_list xs" "prod_list xs \<le> 1" "0 \<le> x" "x \<le> 1"
    by simp_all
  then show ?case by (simp add: mult_le_one)
qed

lemma aggregate_prr:
  "fst (aggregate samples rri) = prod_list (map fst samples)"
  "fst (snd (aggregate samples rri)) = prod_list (map snd samples)"
  by (simp_all add: aggregate_def calculate_prr_dij_def Let_def)


text \<open>
  C10. With \<open>p_dik \<ge> 0\<close> and \<open>0 \<le> RU \<le> R\<close>, the 6G per-neighbor success probability
  of the driver, \<open>calculate_ps_dik(p_dik, RU / R) = 1 - p_dik * (RU / R)\<close>, is at least the
  NR-V2X one, \<open>1 - p_dik\<close>. So at an outer distance whose samples (the pairs
  \<open>(calculate_ps_dik(p_dik, RU / R), 1 - p_dik)\<close> of the inner loop, see
  \<open>inner_samples_form\<close>) all lie in \<open>[0,1]\<close>, the 6G PRR is at least the NR-V2X PRR.
\<close>

theorem spc6g_dominates_nrv2x:
  assumes "0 \<le> RU" and "RU \<le> R"
  shows "(0 \<le> p_dik \<longrightarrow>
            calculate_ps_dik p_dik (RU / R) = 1 - p_dik * (RU / R)
            \<and> 1 - p_dik \<le> calculate_ps_dik p_dik (RU / R))
         \<and> ((\<forall>p\<in>set ps. 0 \<le> calculate_ps_dik p (RU / R) \<and> calculate_ps_dik p (RU / R) \<le> 1
                          \<and> 0 \<le> 1 - p \<and> 1 - p \<le> 1) \<longrightarrow>
              fst (snd (aggregate (map (\<lambda>p. (calculate_ps_dik p (RU / R), 1 - p)) ps) rri))
              \<le> fst (aggregate (map (\<lambda>p. (calculate_ps_dik p (RU / R), 1 - p)) ps) rri))"
proof -
  have "0 \<le> R" using assms by simp
  then have q: "0 \<le> RU / R" "RU / R \<le> 1"
    using assms by (auto simp: divide_le_eq_1)
  have one: "1 - p \<le> calculate_ps_dik p (RU / R)" if "0 \<le> p" for p
  proof -
    have "p * (RU / R) \<le> p * 1"
      using that q by (intro mult_left_mono) auto
    then show ?thesis by (simp add: calculate_ps_dik_eq)
  qed
  have two: "fst (snd (aggregate (map (\<lambda>p. (calculate_ps_dik p (RU / R), 1 - p)) ps) rri))
              \<le> fst (aggregate (map (\<lambda>p. (calculate_ps_dik p (RU / R), 1 - p)) ps) rri)"
    if h: "\<forall>p\<in>set ps. 0 \<le> calculate_ps_dik p (RU / R) \<and> calculate_ps_dik p (RU / R) \<le> 1
                          \<and> 0 \<le> 1 - p \<and> 1 - p \<le> 1"
  proof -
    have "0 \<le> 1 - p \<and> 1 - p \<le> calculate_ps_dik p (RU / R)" if "p \<in> set ps" for p
      using h that one [of p] by auto
    then have "prod_list (map (\<lambda>p. 1 - p) ps) \<le> prod_list (map (\<lambda>p. calculate_ps_dik p (RU / R)) ps)"
      using prod_list_mono_nonneg [of ps "\<lambda>p. 1 - p" "\<lambda>p. calculate_ps_dik p (RU / R)"] by blast
    then show ?thesis
      by (simp add: aggregate_prr comp_def)
  qed
  show ?thesis
    using one two by (simp add: calculate_ps_dik_eq)
qed

theorem spc6g_dominates_nrv2x_witness:
  "(0::real) \<le> 1 \<and> (1::real) \<le> 4
   \<and> calculate_ps_dik (1 / 2) (1 / 4) = 1 - (1 / 2) * (1 / 4)
   \<and> 1 - 1 / 2 \<le> calculate_ps_dik (1 / 2) (1 / 4)
   \<and> fst (snd (aggregate (map (\<lambda>p. (calculate_ps_dik p (1 / 4), 1 - p)) [1 / 2, 1 / 4]) (1 / 10)))
     \<le> fst (aggregate (map (\<lambda>p. (calculate_ps_dik p (1 / 4), 1 - p)) [1 / 2, 1 / 4]) (1 / 10))"
  using spc6g_dominates_nrv2x [of 1 4 "1 / 2" "[1 / 2, 1 / 4]" "1 / 10"]
  by (simp add: calculate_ps_dik_eq)

subsection \<open>The threshold-adjustment loop\<close>





lemma adjust_threshold_stay:
  assumes "RU \<le> (1 - s) * R"
  shows "adjust_threshold erf beta P_t_dB K_0_dB alpha R channels s (P_s_dB, spsr, RU)
           = Some (Inr (P_s_dB, spsr, RU))"
  using assms by (subst adjust_threshold.simps) simp


lemma erf_strict_bounded: "erf_strict erf \<Longrightarrow> erf_bounded erf"
  by (simp add: erf_strict_def erf_bounded_def less_imp_le)

lemma PSR_pos:
  assumes "erf_strict erf"
  shows "0 < PSR erf d Pt Psen K0 g"
proof -
  obtain z where eq: "PSR erf d Pt Psen K0 g = (1 + erf z) / 2"
    using PSR_erf by blast
  have "- 1 < erf z"
    using assms by (simp add: erf_strict_def)
  then show ?thesis unfolding eq by simp
qed

lemma sum_list_map_le_length:
  "(\<And>x. x \<in> set xs \<Longrightarrow> f x \<le> (1::real)) \<Longrightarrow> sum_list (map f xs) \<le> real (length xs)"
proof (induction xs)
  case Nil
  then show ?case by simp
next
  case (Cons x xs)
  then have "f x \<le> 1" and "sum_list (map f xs) \<le> real (length xs)"
    by simp_all
  then show ?case by simp
qed

lemma sum_list_map_pos:
  "(\<And>x. x \<in> set xs \<Longrightarrow> (0::real) < f x) \<Longrightarrow> xs \<noteq> [] \<Longrightarrow> 0 < sum_list (map f xs)"
proof (induction xs)
  case Nil
  then show ?case by simp
next
  case (Cons x xs)
  have "0 < f x" using Cons.prems by simp
  moreover have "0 \<le> sum_list (map f xs)"
    using Cons.prems by (intro sum_list_map_nonneg) (simp add: less_imp_le)
  ultimately show ?case by simp
qed

lemma length_arange: "length (arange (- 2000) 2000) = 4000"
  by (simp add: arange_def)

lemma SPSR_upper:
  assumes "erf_bounded erf" and "0 \<le> beta"
  shows "SPSR erf beta P_t_dB P_s_dB K_0_dB alpha \<le> beta * 4000"
proof -
  have "sum_list (map (\<lambda>d. PSR erf d P_t_dB P_s_dB K_0_dB alpha) (arange (- 2000) 2000))
          \<le> real (length (arange (- 2000) 2000))"
    by (intro sum_list_map_le_length PSR_range(2) [OF assms(1)])
  then show ?thesis
    unfolding SPSR_def Let_def length_arange using assms(2)
    by (simp add: mult_left_mono)
qed

lemma SPSR_pos:
  assumes "erf_strict erf" and "0 < beta"
  shows "0 < SPSR erf beta P_t_dB P_s_dB K_0_dB alpha"
proof -
  have "arange (- 2000) 2000 \<noteq> []"
    using length_arange by auto
  then have "0 < sum_list (map (\<lambda>d. PSR erf d P_t_dB P_s_dB K_0_dB alpha) (arange (- 2000) 2000))"
    by (intro sum_list_map_pos PSR_pos [OF assms(1)])
  then show ?thesis
    unfolding SPSR_def Let_def using assms(2) by simp
qed






subsection \<open>A run whose NR-V2X PRR is negative\<close>

text \<open>
  The per-neighbor collision probability \<open>p_dik\<close> is at least
  \<open>2 / (rc1 + rc2) * channels\<^sup>2 / R\<close>, which exceeds 1 when \<open>channels\<close> is large against
  \<open>R\<close>; nothing in the source clamps it.
\<close>

lemma p_dik_lower:
  fixes R RU t mu channels :: real
  assumes R: "0 < R" and RU: "RU < R" and t: "0 \<le> t * RU" and mu: "0 \<le> mu"
  shows "mu * (channels ^ 2 / R)
           \<le> mu * (R - 2 * RU + ((RU ^ 2 / R) * (1 - t) + RU * t)) * (channels / (R - RU)) ^ 2"
proof -
  define D where "D = R - RU"
  define ov where "ov = R - 2 * RU + ((RU ^ 2 / R) * (1 - t) + RU * t)"
  have D: "0 < D" using RU by (simp add: D_def)
  have "ov = D ^ 2 / R + (t * RU) * D / R"
    using R by (simp add: ov_def D_def field_simps power2_eq_square)
  moreover have "0 \<le> (t * RU) * D / R"
    using t D R by simp
  ultimately have "D ^ 2 / R \<le> ov" by simp
  then have "(D ^ 2 / R) * (channels / D) ^ 2 \<le> ov * (channels / D) ^ 2"
    by (intro mult_right_mono) simp_all
  moreover have "(D ^ 2 / R) * (channels / D) ^ 2 = channels ^ 2 / R"
    using D R by (simp add: field_simps power2_eq_square)
  ultimately have "channels ^ 2 / R \<le> ov * (channels / D) ^ 2" by (simp only:)
  then have "mu * (channels ^ 2 / R) \<le> mu * (ov * (channels / D) ^ 2)"
    using mu by (intro mult_left_mono)
  then show ?thesis by (simp add: ov_def D_def mult.assoc)
qed

lemma run_without_adjustment:
  assumes "0 < fc" and "distances max_distance step_distance = Inr ds"
    and "channels \<noteq> 0" and "slot \<noteq> 0" and "maxchannel * (rri / slot) \<noteq> 0"
    and "calculate_RU (maxchannel * (rri / slot))
           (SPSR erf beta P_t_dB P_s_dB (- (32.4 + 20 * log10 fc)) alpha)
           (channels / (maxchannel * (rri / slot))) = Inr RU"
    and "RU \<le> (1 - s) * (maxchannel * (rri / slot))"
  shows "calculate_analytical_results erf channels sinr_threshold_dB beta P_t_dB fc alpha P_s_dB N_0_dB
           maxchannel slot s rc1 rc2 rri p_res_ik max_distance step_distance =
         Some (bind_res
                 (map_res (sweep_point erf channels beta P_t_dB alpha P_s_dB (- (32.4 + 20 * log10 fc))
                             rc1 rc2 rri (10 powr (P_t_dB / 10))
                             (10 powr (- (32.4 + 20 * log10 fc) / 10))
                             (10 powr (sinr_threshold_dB / 10)) (10 powr (N_0_dB / 10))
                             (maxchannel * (rri / slot))
                             (SPSR erf beta P_t_dB P_s_dB (- (32.4 + 20 * log10 fc)) alpha) RU) ds)
                 (\<lambda>rows. Inr (map (\<lambda>(a, b, c, d). a) rows, map (\<lambda>(a, b, c, d). b) rows,
                               map (\<lambda>(a, b, c, d). c) rows, map (\<lambda>(a, b, c, d). d) rows)))"
  using assms
  by (simp add: calculate_analytical_results_def Let_def adjust_threshold_stay)

lemma nrv2x_sample_bound:
  assumes erf: "erf_strict erf" and beta: "0 < beta"
    and R: "0 < R" and ch: "0 < channels" "channels < R"
    and rc: "2 \<le> rc1 + rc2"
    and spsr: "spsr = SPSR erf beta P_t_dB P_s_dB K_0_dB alpha"
    and RU: "RU = R * (1 - (1 - channels / R) powr spsr)"
  shows "\<exists>p_dik. (2 / (rc1 + rc2)) * (channels ^ 2 / R) \<le> p_dik
           \<and> inner_sample erf channels beta P_t_dB alpha P_s_dB K_0_dB rc1 rc2 R spsr RU dik
               = Inr (calculate_ps_dik p_dik (RU / R), 1 - p_dik)"
proof -
  have bounded: "erf_bounded erf"
    using erf by (rule erf_strict_bounded)
  have spsr_pos: "0 < spsr"
    unfolding spsr using erf beta by (rule SPSR_pos)
  define q where "q = 1 - channels / R"
  have q: "0 < q" "q < 1"
    using R ch by (simp_all add: q_def)
  define w where "w = q powr spsr"
  have w: "0 < w" "w \<le> 1"
    using q spsr_pos by (simp_all add: w_def powr_le1)
  have RUw: "RU = R * (1 - w)"
    by (simp add: RU w_def q_def)
  have RU_range: "0 \<le> RU" "RU < R"
    using w R by (simp_all add: RUw mult_less_cancel_left2)
  define cn where "cn = common_neighbors erf beta P_t_dB P_s_dB K_0_dB alpha \<bar>real_of_int dik\<bar>"
  define psr where "psr = PSR erf \<bar>real_of_int dik\<bar> P_t_dB P_s_dB K_0_dB alpha"
  have cn: "0 \<le> cn"
    unfolding cn_def using bounded beta by (intro common_neighbors_nonneg) simp_all
  have psr: "0 \<le> psr" "psr \<le> 1"
    unfolding psr_def using PSR_range [OF bounded] by simp_all
  define c where "c = 2 / (rc1 + rc2)"
  have c: "0 < c" "c \<le> 1"
    using rc by (simp_all add: c_def)
  define mu where "mu = 1 - (1 - c) * psr"
  have "(1 - c) * psr \<le> (1 - c) * 1"
    using c psr by (intro mult_left_mono) simp_all
  then have mu: "c \<le> mu"
    by (simp add: mu_def)
  define t where "t = cn / spsr"
  have t: "0 \<le> t * RU"
    using cn spsr_pos RU_range by (simp add: t_def)
  define u where "u = (RU ^ 2 / R) * (1 - t) + RU * t"
  define p where "p = mu * calculate_o_dik R RU u * (channels / (R - RU)) ^ 2"
  have "mu * (channels ^ 2 / R) \<le> p"
    unfolding p_def calculate_o_dik_def u_def
    using R RU_range(2) t by (intro p_dik_lower) (use mu c in simp_all)
  moreover have "c * (channels ^ 2 / R) \<le> mu * (channels ^ 2 / R)"
    using mu R by (intro mult_right_mono) simp_all
  ultimately have lower: "c * (channels ^ 2 / R) \<le> p"
    by simp
  have u_eq: "calculate_u_dik R RU cn spsr = Inr u"
    using R spsr_pos by (simp add: calculate_u_dik_def u_def t_def)
  have mu_eq: "calculate_mu rc1 rc2 psr = Inr mu"
    using rc by (simp add: calculate_mu_def mu_def c_def)
  have p_eq: "calculate_p_dik mu (calculate_o_dik R RU u) channels (R - RU) = Inr p"
    using RU_range by (simp add: calculate_p_dik_def p_def)
  have "inner_sample erf channels beta P_t_dB alpha P_s_dB K_0_dB rc1 rc2 R spsr RU dik
          = Inr (calculate_ps_dik p (RU / R), 1 - p)"
    unfolding inner_sample_def Let_def
    by (simp add: cn_def [symmetric] psr_def [symmetric] u_eq mu_eq p_eq bind_res_def)
  with lower show ?thesis
    unfolding c_def by blast
qed

lemma example_d_int:
  assumes "K = - 32.4"
  shows "calculate_d_int (10 powr (42.4 / 10)) (10 powr (K / 10))
      (10 powr (0 / 10)) (real_of_int (0 + 1)) 1 (10 powr (0 / 10)) = Inr (RealVal (10 / 9))"
proof -
  have "(10::real) powr (42.4 / 10) * 10 powr (K / 10) = 10 powr 1"
    unfolding powr_add [symmetric] by (simp add: assms)
  then have X: "(10::real) powr (42.4 / 10) * 10 powr (K / 10) = 10"
    by simp
  show ?thesis
    unfolding calculate_d_int_def Let_def X
    by (simp add: float_pow_def)
qed

lemma example_range: "d_ik_range 0 (RealVal (10 / 9)) (1 / 4096) = Inr [- 1]"
  by (simp add: d_ik_range_def py_int_def py_range_def)

lemma example_run:
  assumes erf: "erf_strict erf"
  shows "\<exists>prr6 prrnr pir6 pirnr.
           calculate_analytical_results erf 10 0 (1 / 4096) 42.4 1 1 10 0 20 (1 / 10) (1 / 2) 2 3
               (1 / 10) p_res_ik 0 1
             = Some (Inr ([prr6], [prrnr], [pir6], [pirnr]))
           \<and> prrnr \<le> - 1"
proof -
  define K where "K = - (32.4 + 20 * log10 (1::real))"
  define spsr where "spsr = SPSR erf (1 / 4096) 42.4 10 K 1"
  define RU where "RU = 20 * (1 - (1 - 10 / 20) powr spsr)"
  have Kval: "K = - 32.4"
    by (simp add: K_def log10_def)
  have bounded: "erf_bounded erf"
    using erf by (rule erf_strict_bounded)
  have spsr_pos: "0 < spsr"
    unfolding spsr_def using erf by (intro SPSR_pos) simp_all
  have "spsr \<le> (1 / 4096) * 4000"
    unfolding spsr_def using bounded by (intro SPSR_upper) simp_all
  then have spsr_le: "spsr \<le> 1" by simp
  have "(1 / 2 :: real) powr 1 \<le> (1 / 2) powr spsr"
    using spsr_le by (intro powr_mono') simp_all
  then have half: "1 / 2 \<le> (1 / 2 :: real) powr spsr" by simp
  have ru: "calculate_RU 20 spsr (10 / 20) = Inr RU"
    by (simp add: calculate_RU_def float_pow_def RU_def)
  have RU_le: "RU \<le> (1 - 1 / 2) * 20"
    using half by (simp add: RU_def)
  have dist: "distances 0 1 = Inr [0]"
    by (simp add: distances_def py_range_def)
  obtain p where p: "(2 / (2 + 3)) * (10 ^ 2 / 20) \<le> p"
    and sample: "inner_sample erf 10 (1 / 4096) 42.4 1 10 K 2 3 20 spsr RU (- 1)
                   = Inr (calculate_ps_dik p (RU / 20), 1 - p)"
    using nrv2x_sample_bound [OF erf, where beta = "1 / 4096" and R = 20 and channels = 10
        and ?rc1.0 = 2 and ?rc2.0 = 3 and spsr = spsr and P_t_dB = "42.4" and P_s_dB = 10
        and K_0_dB = K and alpha = 1 and RU = RU and dik = "- 1"]
    by (auto simp: spsr_def RU_def)
  have p2: "2 \<le> p" using p by simp
  have point: "sweep_point erf 10 (1 / 4096) 42.4 1 10 K 2 3 (1 / 10)
                 (10 powr (42.4 / 10)) (10 powr (K / 10)) (10 powr (0 / 10)) (10 powr (0 / 10))
                 20 spsr RU 0
               = Inr (aggregate [(calculate_ps_dik p (RU / 20), 1 - p)] (1 / 10))"
    unfolding sweep_point_def example_d_int [OF Kval] bind_res_def sum.case example_range
      map_res.simps sample
    by simp
  have "calculate_analytical_results erf 10 0 (1 / 4096) 42.4 1 1 10 0 20 (1 / 10) (1 / 2) 2 3
               (1 / 10) p_res_ik 0 1
        = Some (bind_res
                 (map_res (sweep_point erf 10 (1 / 4096) 42.4 1 10 K 2 3 (1 / 10)
                             (10 powr (42.4 / 10)) (10 powr (K / 10)) (10 powr (0 / 10)) (10 powr (0 / 10))
                             (20 * ((1 / 10) / (1 / 10))) spsr RU) [0])
                 (\<lambda>rows. Inr (map (\<lambda>(a, b, c, d). a) rows, map (\<lambda>(a, b, c, d). b) rows,
                               map (\<lambda>(a, b, c, d). c) rows, map (\<lambda>(a, b, c, d). d) rows)))"
    unfolding K_def spsr_def
    by (rule run_without_adjustment)
       (use dist ru RU_le in \<open>simp_all add: K_def spsr_def\<close>)
  then have "calculate_analytical_results erf 10 0 (1 / 4096) 42.4 1 1 10 0 20 (1 / 10) (1 / 2) 2 3
               (1 / 10) p_res_ik 0 1
        = Some (Inr ([fst (aggregate [(calculate_ps_dik p (RU / 20), 1 - p)] (1 / 10))],
                     [fst (snd (aggregate [(calculate_ps_dik p (RU / 20), 1 - p)] (1 / 10)))],
                     [fst (snd (snd (aggregate [(calculate_ps_dik p (RU / 20), 1 - p)] (1 / 10))))],
                     [snd (snd (snd (aggregate [(calculate_ps_dik p (RU / 20), 1 - p)] (1 / 10))))]))"
    using point by (simp add: bind_res_def case_prod_beta)
  moreover have "fst (snd (aggregate [(calculate_ps_dik p (RU / 20), 1 - p)] (1 / 10))) \<le> - 1"
    using p2 by (simp add: aggregate_prr)
  ultimately show ?thesis by blast
qed






text \<open>
  C2, as stated: every element of both returned PRR sequences would lie in \<open>[0,1]\<close>.
  With \<open>channels = 10\<close>, \<open>maxchannel = 20\<close>, \<open>rri = slot = 0.1\<close> (so \<open>R = 20\<close>),
  \<open>beta = 1/4096\<close>, \<open>s = 0.5\<close>, \<open>rc1 = 2\<close>, \<open>rc2 = 3\<close>, \<open>P_t_dB = 42.4\<close>, \<open>fc = 1\<close>,
  \<open>alpha = 1\<close>, \<open>P_s_dB = 10\<close>, \<open>sinr_threshold_dB = N_0_dB = 0\<close>, \<open>max_distance = 0\<close>
  and \<open>step_distance = 1\<close> the run returns one outer sample whose NR-V2X PRR is at most
  \<open>-1\<close>, for every \<open>erf\<close> with values strictly between \<open>-1\<close> and \<open>1\<close>: there is no such
  \<open>erf\<close> for which the claim holds at this input.
\<close>

theorem prr_unit_interval_counterexample:
  "erf_strict soft_sign
   \<and> \<not> (\<exists>erf. erf_strict erf
          \<and> (\<forall>prr_spc6G prr_nrv2x pir_spc6G pir_nrv2x.
                calculate_analytical_results erf 10 0 (1 / 4096) 42.4 1 1 10 0 20 (1 / 10) (1 / 2) 2 3
                    (1 / 10) (1 / 10) 0 1
                  = Some (Inr (prr_spc6G, prr_nrv2x, pir_spc6G, pir_nrv2x))
                \<longrightarrow> (\<forall>x\<in>set prr_spc6G \<union> set prr_nrv2x. 0 \<le> x \<and> x \<le> 1)))"
proof (intro conjI notI)
  show "erf_strict soft_sign" by (rule soft_sign_strict)
next
  assume "\<exists>erf. erf_strict erf
          \<and> (\<forall>prr_spc6G prr_nrv2x pir_spc6G pir_nrv2x.
                calculate_analytical_results erf 10 0 (1 / 4096) 42.4 1 1 10 0 20 (1 / 10) (1 / 2) 2 3
                    (1 / 10) (1 / 10) 0 1
                  = Some (Inr (prr_spc6G, prr_nrv2x, pir_spc6G, pir_nrv2x))
                \<longrightarrow> (\<forall>x\<in>set prr_spc6G \<union> set prr_nrv2x. 0 \<le> x \<and> x \<le> 1))"
  then obtain erf where erf: "erf_strict erf"
    and ok: "\<And>prr_spc6G prr_nrv2x pir_spc6G pir_nrv2x.
                calculate_analytical_results erf 10 0 (1 / 4096) 42.4 1 1 10 0 20 (1 / 10) (1 / 2) 2 3
                    (1 / 10) (1 / 10) 0 1
                  = Some (Inr (prr_spc6G, prr_nrv2x, pir_spc6G, pir_nrv2x))
                \<Longrightarrow> (\<forall>x\<in>set prr_spc6G \<union> set prr_nrv2x. 0 \<le> x \<and> x \<le> 1)"
    by blast
  obtain a b c d where run:
    "calculate_analytical_results erf 10 0 (1 / 4096) 42.4 1 1 10 0 20 (1 / 10) (1 / 2) 2 3
             (1 / 10) (1 / 10) 0 1 = Some (Inr ([a], [b], [c], [d]))"
    and b: "b \<le> - 1"
    using example_run [OF erf, of "1 / 10"] by blast
  from ok [OF run] have "0 \<le> b" by simp
  with b show False by simp
qed


text \<open>
  C2, amended. At an outer distance where every per-neighbor success probability (6G
  and NR-V2X) lies in \<open>[0,1]\<close>, both PRR values and both outage probabilities
  \<open>1 - prod(success probabilities)\<close> of the Aggregate step lie in \<open>[0,1]\<close>.
\<close>

theorem prr_unit_interval:
  assumes "\<forall>(a, b)\<in>set samples. 0 \<le> a \<and> a \<le> 1 \<and> 0 \<le> b \<and> b \<le> 1"
  shows "0 \<le> fst (aggregate samples rri) \<and> fst (aggregate samples rri) \<le> 1
         \<and> 0 \<le> fst (snd (aggregate samples rri)) \<and> fst (snd (aggregate samples rri)) \<le> 1
         \<and> 0 \<le> 1 - prod_list (map fst samples) \<and> 1 - prod_list (map fst samples) \<le> 1
         \<and> 0 \<le> 1 - prod_list (map snd samples) \<and> 1 - prod_list (map snd samples) \<le> 1"
proof -
  have "0 \<le> prod_list (map fst samples) \<and> prod_list (map fst samples) \<le> 1"
    using assms by (intro prod_list_unit) auto
  moreover have "0 \<le> prod_list (map snd samples) \<and> prod_list (map snd samples) \<le> 1"
    using assms by (intro prod_list_unit) auto
  ultimately show ?thesis
    by (simp add: aggregate_prr)
qed

theorem prr_unit_interval_witness:
  "fst (aggregate [(3 / 4, 1 / 2), (1 / 2, 1 / 4)] (1 / 10)) = 3 / 8
   \<and> fst (snd (aggregate [(3 / 4, 1 / 2), (1 / 2, 1 / 4)] (1 / 10))) = 1 / 8
   \<and> 0 \<le> fst (aggregate [(3 / 4, 1 / 2), (1 / 2, 1 / 4)] (1 / 10))
   \<and> fst (aggregate [(3 / 4, 1 / 2), (1 / 2, 1 / 4)] (1 / 10)) \<le> 1
   \<and> 0 \<le> fst (snd (aggregate [(3 / 4, 1 / 2), (1 / 2, 1 / 4)] (1 / 10)))
   \<and> fst (snd (aggregate [(3 / 4, 1 / 2), (1 / 2, 1 / 4)] (1 / 10))) \<le> 1"
  using prr_unit_interval [of "[(3 / 4, 1 / 2), (1 / 2, 1 / 4)]" "1 / 10"]
  by (simp add: aggregate_prr)


subsection \<open>The returned lists\<close>

lemma sweep_point_aggregate:
  assumes "sweep_point erf channels beta P_t_dB alpha P_s_dB K_0_dB rc1 rc2 rri
             P_t K_0 sinr_threshold N_0 R spsr RU d_ij = Inr row"
  shows "\<exists>d_int d_ik_range' samples.
           calculate_d_int P_t K_0 sinr_threshold (real_of_int (d_ij + 1)) alpha N_0 = Inr d_int
           \<and> d_ik_range d_ij d_int beta = Inr d_ik_range'
           \<and> map_res (inner_sample erf channels beta P_t_dB alpha P_s_dB K_0_dB rc1 rc2 R spsr RU)
                 d_ik_range' = Inr samples
           \<and> row = aggregate samples rri"
  using assms by (auto simp: sweep_point_def bind_res_Inr_iff)

lemma results_aligned:
  assumes "calculate_analytical_results erf channels sinr_threshold_dB beta P_t_dB fc alpha P_s_dB
             N_0_dB maxchannel slot s rc1 rc2 rri p_res_ik max_distance step_distance
           = Some (Inr (prr_spc6G, prr_nrv2x, pir_spc6G, pir_nrv2x))"
  shows "\<exists>ds. distances max_distance step_distance = Inr ds
           \<and> length prr_spc6G = length ds \<and> length prr_nrv2x = length ds
           \<and> length pir_spc6G = length ds \<and> length pir_nrv2x = length ds"
  using assms
  by (auto simp: calculate_analytical_results_def Let_def bind_res_Inr_iff
           dest!: map_res_Inr_length split: if_splits sum.splits option.splits)

end
